theory Spec2Isabelle
  imports Complex_Main
begin

section \<open>Shared vocabulary\<close>

text \<open>
  The services are thin layers over one PostgreSQL database. Each service method is
  modelled as a function that takes the database, runs the statements the method issues
  and returns the method's result together with the database afterwards. An exception
  thrown by a method is the \<open>Inl\<close> of its result. Timestamps are milliseconds since the
  epoch; the value \<open>NOW()\<close> has when a statement runs is an argument of the statement.
  Floating-point columns are modelled by rationals.
\<close>

datatype error =
    BadRequestException string
  | NotFoundException string
  | StoreFailure string

text \<open>Nest's default exception filter: an HttpException keeps its status, anything else
  (here: an error raised by the database driver) becomes 500.\<close>

fun http_status :: "error \<Rightarrow> nat" where
  "http_status (BadRequestException m) = 400"
| "http_status (NotFoundException m) = 404"
| "http_status (StoreFailure m) = 500"

datatype json =
    JNull
  | JBool bool
  | JNumber rat
  | JString string
  | JArray "json list"
  | JObject "(string \<times> json) list"

datatype sql_statement = INSERT string | SELECT string | UPDATE string | DELETE string

text \<open>\<open>const [row] = rows\<close>: the first row, \<open>undefined\<close> when there is none.\<close>

fun first_row :: "'a list \<Rightarrow> 'a option" where
  "first_row [] = None"
| "first_row (r # rs) = Some r"

text \<open>Decimal rendering of an identifier, as template literals and \<open>String(n)\<close> produce it.\<close>

definition digit_char :: "nat \<Rightarrow> char" where
  "digit_char d = ''0123456789'' ! d"

function string_of_nat :: "nat \<Rightarrow> string" where
  "string_of_nat n =
     (if n < 10 then [digit_char n]
      else string_of_nat (n div 10) @ [digit_char (n mod 10)])"
  by pat_completeness auto
termination
  by (relation "measure (\<lambda>n. n)") auto

declare string_of_nat.simps [simp del]

text \<open>PostgreSQL's cast of a double to \<open>int\<close> (\<open>x::int\<close>): round to the nearest integer,
  a tie to the even neighbour, and fail outside the 32-bit range.\<close>

definition rint :: "rat \<Rightarrow> int" where
  "rint x =
     (let f = \<lfloor>x\<rfloor>; d = x - of_int f
      in if d < 1 / 2 then f
         else if 1 / 2 < d then f + 1
         else if even f then f else f + 1)"

definition int4_range :: "int \<Rightarrow> bool" where
  "int4_range n = (- 2147483648 \<le> n \<and> n \<le> 2147483647)"

section \<open>Tables (migrations 001 and 002)\<close>

record point =
  pt_lon :: rat
  pt_lat :: rat

record inventory_row =
  inv_id :: nat
  inv_name :: string
  inv_description :: "string option"
  inv_metadata :: "json option"
  inv_embedding :: "rat list option"
  inv_created_at :: nat

record driver_row =
  drv_id :: nat
  drv_name :: string
  drv_location :: "point option"
  drv_status :: string

record telemetry_row =
  tm_time :: int
  tm_vehicle_id :: string
  tm_speed :: "rat option"
  tm_battery_level :: "rat option"
  tm_temperature :: "rat option"
  tm_location :: "point option"

datatype OrderStatus = Pending | Queued | Processing | Completed | Failed

record Order =
  order_id :: nat
  order_customer_id :: string
  order_driver_id :: string
  order_inventory_id :: string
  order_quantity :: int
  order_status :: OrderStatus
  order_metadata :: json
  order_created_at :: nat
  order_updated_at :: nat

text \<open>The database: the four tables, the sequence behind \<open>orders.id\<close> (its next value),
  and the statements issued so far, oldest first.\<close>

record database =
  inventory :: "inventory_row list"
  drivers :: "driver_row list"
  vehicle_telemetry :: "telemetry_row list"
  orders :: "Order list"
  orders_id_seq :: nat
  issued :: "sql_statement list"

definition issue :: "sql_statement \<Rightarrow> database \<Rightarrow> database" where
  "issue s db = db\<lparr>issued := issued db @ [s]\<rparr>"

section \<open>Orders (orders.service.ts, orders.controller.ts, main.ts)\<close>

record CreateOrderDto =
  customerId :: string
  driverId :: string
  inventoryId :: string
  quantity :: int
  metadata :: "json option"

text \<open>The class-validator decorators of CreateOrderDto: \<open>@IsNotEmpty\<close> on the three
  identifiers, \<open>@IsPositive\<close> on the quantity.\<close>

definition CreateOrderDto_decorators :: "CreateOrderDto \<Rightarrow> bool" where
  "CreateOrderDto_decorators dto =
     (customerId dto \<noteq> [] \<and> driverId dto \<noteq> [] \<and> inventoryId dto \<noteq> [] \<and> 0 < quantity dto)"

text \<open>
  \<open>INSERT INTO orders (...) VALUES (..., 'pending', ...) RETURNING *\<close>.
  The quantity parameter is bound to an \<open>INTEGER\<close> column; the identifier is drawn from
  the sequence before the row is checked; \<open>id\<close> is the primary key and
  \<open>CHECK (quantity > 0)\<close> guards the row; \<open>created_at\<close> and \<open>updated_at\<close> default to
  \<open>NOW()\<close>.
\<close>

definition inserted_order :: "nat \<Rightarrow> nat \<Rightarrow> CreateOrderDto \<Rightarrow> Order" where
  "inserted_order n now dto =
     \<lparr>order_id = n,
      order_customer_id = customerId dto,
      order_driver_id = driverId dto,
      order_inventory_id = inventoryId dto,
      order_quantity = quantity dto,
      order_status = Pending,
      order_metadata = (case metadata dto of None \<Rightarrow> JObject [] | Some m \<Rightarrow> m),
      order_created_at = now,
      order_updated_at = now\<rparr>"

definition insert_order :: "nat \<Rightarrow> CreateOrderDto \<Rightarrow> database \<Rightarrow> (error + Order) \<times> database" where
  "insert_order now dto db =
     (let db1 = issue (INSERT ''orders'') db in
      if \<not> int4_range (quantity dto) then (Inl (StoreFailure ''integer out of range''), db1)
      else
        let n = orders_id_seq db1;
            db2 = db1\<lparr>orders_id_seq := n + 1\<rparr>;
            row = inserted_order n now dto
        in if quantity dto \<le> 0
           then (Inl (StoreFailure ''violates check constraint orders_quantity_check''), db2)
           else if n \<in> set (map order_id (orders db2))
           then (Inl (StoreFailure ''duplicate key value violates orders_pkey''), db2)
           else (Inr row, db2\<lparr>orders := orders db2 @ [row]\<rparr>))"

text \<open>The trigger \<open>trg_orders_updated_at\<close>: before every row update, \<open>updated_at = NOW()\<close>.\<close>

definition orders_set_updated_at :: "nat \<Rightarrow> Order \<Rightarrow> Order" where
  "orders_set_updated_at now row = row\<lparr>order_updated_at := now\<rparr>"

text \<open>\<open>UPDATE orders SET status = $1, updated_at = NOW() WHERE id = $2 RETURNING *\<close>.\<close>

definition update_order_status :: "nat \<Rightarrow> OrderStatus \<Rightarrow> nat \<Rightarrow> database \<Rightarrow> Order list \<times> database" where
  "update_order_status now st oid db =
     (let upd = (\<lambda>row. if order_id row = oid
                        then orders_set_updated_at now (row\<lparr>order_status := st, order_updated_at := now\<rparr>)
                        else row);
          rows = map upd (orders db)
      in (filter (\<lambda>row. order_id row = oid) rows,
          issue (UPDATE ''orders'') (db\<lparr>orders := rows\<rparr>)))"

text \<open>The broker channel: \<open>sendToQueue\<close> returns a boolean or throws.\<close>

record queue_message =
  msg_queue :: string
  msg_orderId :: nat
  msg_customerId :: string
  msg_driverId :: string
  msg_inventoryId :: string
  msg_quantity :: int
  msg_metadata :: json
  msg_publishedAt :: nat
  msg_persistent :: bool
  msg_contentType :: string
  msg_messageId :: string

datatype send_outcome = Returns bool | Throws

type_synonym channel = "queue_message \<Rightarrow> send_outcome"

definition ORDERS_QUEUE :: string where
  "ORDERS_QUEUE = ''orders_queue''"

definition order_message :: "nat \<Rightarrow> Order \<Rightarrow> queue_message" where
  "order_message now order =
     \<lparr>msg_queue = ORDERS_QUEUE,
      msg_orderId = order_id order,
      msg_customerId = order_customer_id order,
      msg_driverId = order_driver_id order,
      msg_inventoryId = order_inventory_id order,
      msg_quantity = order_quantity order,
      msg_metadata = order_metadata order,
      msg_publishedAt = now,
      msg_persistent = True,
      msg_contentType = ''application/json'',
      msg_messageId = string_of_nat (order_id order)\<rparr>"

definition publishToQueue :: "channel option \<Rightarrow> nat \<Rightarrow> Order \<Rightarrow> bool" where
  "publishToQueue chan now order =
     (case chan of
        None \<Rightarrow> False
      | Some ch \<Rightarrow>
          (case ch (order_message now order) of
             Returns b \<Rightarrow> b
           | Throws \<Rightarrow> False))"

text \<open>\<open>OrdersService.create\<close>. The three times are those of the insert, of the publish
  and of the status update.\<close>

definition OrdersService_create ::
  "channel option \<Rightarrow> nat \<Rightarrow> nat \<Rightarrow> nat \<Rightarrow> CreateOrderDto \<Rightarrow> database
     \<Rightarrow> (error + Order option) \<times> database" where
  "OrdersService_create chan t_ins t_pub t_upd dto db =
     (case insert_order t_ins dto db of
        (Inl e, db1) \<Rightarrow> (Inl e, db1)
      | (Inr order, db1) \<Rightarrow>
          if publishToQueue chan t_pub order
          then (case update_order_status t_upd Queued (order_id order) db1 of
                  (rows, db2) \<Rightarrow> (Inr (first_row rows), db2))
          else (Inr (Some order), db1))"

text \<open>
  \<open>bootstrap\<close> in main.ts creates the application and installs no global pipe, and
  \<open>OrdersController.create\<close> binds none to its \<open>@Body()\<close>. Nest evaluates the decorators
  of a DTO only inside a ValidationPipe, which answers 400 when one of them fails.
\<close>

datatype pipe = ValidationPipe

definition bootstrap_global_pipes :: "pipe list" where
  "bootstrap_global_pipes = []"

definition transform_body :: "pipe list \<Rightarrow> CreateOrderDto \<Rightarrow> error + CreateOrderDto" where
  "transform_body pipes dto =
     (if ValidationPipe \<in> set pipes
      then (if CreateOrderDto_decorators dto then Inr dto
            else Inl (BadRequestException ''Bad Request''))
      else Inr dto)"

definition OrdersController_create ::
  "channel option \<Rightarrow> nat \<Rightarrow> nat \<Rightarrow> nat \<Rightarrow> CreateOrderDto \<Rightarrow> database
     \<Rightarrow> (error + Order option) \<times> database" where
  "OrdersController_create chan t_ins t_pub t_upd body db =
     (case transform_body bootstrap_global_pipes body of
        Inl e \<Rightarrow> (Inl e, db)
      | Inr dto \<Rightarrow> OrdersService_create chan t_ins t_pub t_upd dto db)"

text \<open>\<open>SELECT * FROM orders WHERE id = $1\<close> and \<open>OrdersService.findOne\<close>.\<close>

definition select_order :: "nat \<Rightarrow> database \<Rightarrow> Order list \<times> database" where
  "select_order oid db =
     (filter (\<lambda>row. order_id row = oid) (orders db), issue (SELECT ''orders'') db)"

definition OrdersService_findOne :: "nat \<Rightarrow> database \<Rightarrow> (error + Order) \<times> database" where
  "OrdersService_findOne oid db =
     (case select_order oid db of
        (rows, db1) \<Rightarrow>
          (case first_row rows of
             None \<Rightarrow> (Inl (NotFoundException (''Order #'' @ string_of_nat oid @ '' not found'')), db1)
           | Some order \<Rightarrow> (Inr order, db1)))"

text \<open>
  \<open>OrdersService.update\<close>. The method collects the column names in \<open>fields\<close> and the
  new values in \<open>values\<close>, renders \<open>fields\<close> as \<open>name = $i\<close> clauses and splices that text
  into the statement with \<open>sql.raw\<close>. The only value interpolated into the template is
  \<open>id\<close>, so the compiled statement carries the single parameter \<open>[id]\<close>, which the query
  builder numbers \<open>$1\<close>; \<open>values\<close> is not read again. (White space of the template is
  written as single blanks.) What the store answers to that statement is the parameter
  \<open>exec\<close> of the model.
\<close>

record UpdateOrderDto =
  upd_customerId :: "string option"
  upd_driverId :: "string option"
  upd_inventoryId :: "string option"
  upd_quantity :: "int option"
  upd_metadata :: "json option"

datatype sql_value = SqlInt int | SqlText string | SqlJsonText json

definition pushed :: "string \<Rightarrow> ('a \<Rightarrow> sql_value) \<Rightarrow> 'a option \<Rightarrow> (string \<times> sql_value) list" where
  "pushed column wrap field = (case field of None \<Rightarrow> [] | Some v \<Rightarrow> [(column, wrap v)])"

definition update_fields_values :: "UpdateOrderDto \<Rightarrow> (string \<times> sql_value) list" where
  "update_fields_values dto =
     pushed ''customer_id'' SqlText (upd_customerId dto) @
     pushed ''driver_id'' SqlText (upd_driverId dto) @
     pushed ''inventory_id'' SqlText (upd_inventoryId dto) @
     pushed ''quantity'' SqlInt (upd_quantity dto) @
     pushed ''metadata'' SqlJsonText (upd_metadata dto)"

fun join :: "string \<Rightarrow> string list \<Rightarrow> string" where
  "join sep [] = []"
| "join sep [x] = x"
| "join sep (x # y # ys) = x @ sep @ join sep (y # ys)"

definition setClauses :: "string list \<Rightarrow> string" where
  "setClauses columns =
     join '', '' (map (\<lambda>(f, i). f @ '' = $'' @ string_of_nat (i + 1))
                      (zip columns [0 ..< length columns]))"

record compiled_query =
  cq_sql :: string
  cq_parameters :: "sql_value list"

definition update_query :: "nat \<Rightarrow> UpdateOrderDto \<Rightarrow> compiled_query" where
  "update_query oid dto =
     \<lparr>cq_sql = ''UPDATE orders SET '' @ setClauses (map fst (update_fields_values dto)) @
               '', updated_at = NOW() WHERE id = $1 RETURNING *'',
      cq_parameters = [SqlInt (int oid)]\<rparr>"

type_synonym raw_executor =
  "compiled_query \<Rightarrow> nat \<Rightarrow> database \<Rightarrow> (error + Order list) \<times> database"

definition OrdersService_update ::
  "raw_executor \<Rightarrow> nat \<Rightarrow> nat \<Rightarrow> UpdateOrderDto \<Rightarrow> database \<Rightarrow> (error + Order option) \<times> database" where
  "OrdersService_update exec now oid dto db =
     (case OrdersService_findOne oid db of
        (Inl e, db1) \<Rightarrow> (Inl e, db1)
      | (Inr found, db1) \<Rightarrow>
          if length (map fst (update_fields_values dto)) = 0
          then (case OrdersService_findOne oid db1 of
                  (Inl e, db2) \<Rightarrow> (Inl e, db2)
                | (Inr order, db2) \<Rightarrow> (Inr (Some order), db2))
          else (case exec (update_query oid dto) now db1 of
                  (Inl e, db2) \<Rightarrow> (Inl e, db2)
                | (Inr rows, db2) \<Rightarrow> (Inr (first_row rows), db2)))"

section \<open>Drivers (drivers.service.ts, drivers.controller.ts)\<close>

text \<open>
  What the API returns for a driver: \<open>location\<close> is the GeoJSON rendering of the stored
  point, \<open>ST_AsGeoJSON(location)::jsonb\<close>, with the coordinates as stored.
\<close>

record DriverLocation =
  geo_type :: string
  geo_coordinates :: "rat \<times> rat"

record DriverRow =
  dr_id :: nat
  dr_name :: string
  dr_status :: string
  dr_location :: "DriverLocation option"

definition ST_AsGeoJSON :: "point \<Rightarrow> DriverLocation" where
  "ST_AsGeoJSON p = \<lparr>geo_type = ''Point'', geo_coordinates = (pt_lon p, pt_lat p)\<rparr>"

definition ST_MakePoint :: "rat \<Rightarrow> rat \<Rightarrow> point" where
  "ST_MakePoint x y = \<lparr>pt_lon = x, pt_lat = y\<rparr>"

definition driver_columns :: "driver_row \<Rightarrow> DriverRow" where
  "driver_columns d =
     \<lparr>dr_id = drv_id d, dr_name = drv_name d, dr_status = drv_status d,
      dr_location = map_option ST_AsGeoJSON (drv_location d)\<rparr>"

definition DriversService_findOne :: "nat \<Rightarrow> database \<Rightarrow> (error + DriverRow) \<times> database" where
  "DriversService_findOne did db =
     (case first_row (map driver_columns (filter (\<lambda>d. drv_id d = did) (drivers db))) of
        None \<Rightarrow> (Inl (NotFoundException (''Driver #'' @ string_of_nat did @ '' not found'')),
                 issue (SELECT ''drivers'') db)
      | Some row \<Rightarrow> (Inr row, issue (SELECT ''drivers'') db))"

record LocationDto =
  loc_lat :: rat
  loc_lon :: rat

record UpdateDriverDto =
  upd_name :: "string option"
  upd_status :: "string option"
  upd_location :: "LocationDto option"

datatype driver_assignment = SetName string | SetStatus string | SetLocation point

fun assign_driver :: "driver_row \<Rightarrow> driver_assignment \<Rightarrow> driver_row" where
  "assign_driver d (SetName v) = d\<lparr>drv_name := v\<rparr>"
| "assign_driver d (SetStatus v) = d\<lparr>drv_status := v\<rparr>"
| "assign_driver d (SetLocation p) = d\<lparr>drv_location := Some p\<rparr>"

definition setParts :: "UpdateDriverDto \<Rightarrow> driver_assignment list" where
  "setParts dto =
     (case upd_name dto of None \<Rightarrow> [] | Some v \<Rightarrow> [SetName v]) @
     (case upd_status dto of None \<Rightarrow> [] | Some v \<Rightarrow> [SetStatus v]) @
     (case upd_location dto of None \<Rightarrow> []
      | Some l \<Rightarrow> [SetLocation (ST_MakePoint (loc_lon l) (loc_lat l))])"

text \<open>\<open>UPDATE drivers SET ... WHERE id = $n RETURNING id, name, status, location\<close>.\<close>

definition update_driver :: "driver_assignment list \<Rightarrow> nat \<Rightarrow> database \<Rightarrow> DriverRow list \<times> database" where
  "update_driver parts did db =
     (let rows = map (\<lambda>d. if drv_id d = did then foldl assign_driver d parts else d) (drivers db)
      in (map driver_columns (filter (\<lambda>d. drv_id d = did) rows),
          issue (UPDATE ''drivers'') (db\<lparr>drivers := rows\<rparr>)))"

definition DriversService_update ::
  "nat \<Rightarrow> UpdateDriverDto \<Rightarrow> database \<Rightarrow> (error + DriverRow option) \<times> database" where
  "DriversService_update did dto db =
     (case DriversService_findOne did db of
        (Inl e, db1) \<Rightarrow> (Inl e, db1)
      | (Inr found, db1) \<Rightarrow>
          if length (setParts dto) = 0
          then (case DriversService_findOne did db1 of
                  (Inl e, db2) \<Rightarrow> (Inl e, db2)
                | (Inr row, db2) \<Rightarrow> (Inr (Some row), db2))
          else (case update_driver (setParts dto) did db1 of
                  (rows, db2) \<Rightarrow> (Inr (first_row rows), db2)))"




text \<open>\<open>status ? sql`AND status = ${status}` : sql``\<close>: an absent or empty status adds no
  condition.\<close>

definition statusFilter :: "string option \<Rightarrow> driver_row \<Rightarrow> bool" where
  "statusFilter status d =
     (case status of None \<Rightarrow> True | Some s \<Rightarrow> (if s = [] then True else drv_status d = s))"

definition nearby_hits ::
  "(point \<Rightarrow> point \<Rightarrow> rat \<Rightarrow> bool) \<Rightarrow> point \<Rightarrow> rat \<Rightarrow> string option \<Rightarrow> driver_row list
     \<Rightarrow> (driver_row \<times> point) list" where
  "nearby_hits ST_DWithin here radiusMetres status ds =
     concat (map (\<lambda>d. case drv_location d of
                          None \<Rightarrow> []
                        | Some p \<Rightarrow> (if ST_DWithin p here radiusMetres \<and> statusFilter status d
                                    then [(d, p)] else []))
                 ds)"



record DriverDistance =
  driver_a :: nat
  driver_b :: nat
  dd_distance_m :: int

definition located :: "nat \<Rightarrow> driver_row list \<Rightarrow> point list" where
  "located did ds =
     concat (map (\<lambda>d. case drv_location d of None \<Rightarrow> [] | Some p \<Rightarrow> [p])
                 (filter (\<lambda>d. drv_id d = did) ds))"

text \<open>\<open>SELECT ST_Distance(a.location, b.location)::int FROM drivers a, drivers b WHERE ...\<close>.
  (The dash of the message is written in ASCII.)\<close>

definition DriversService_distanceBetween ::
  "(point \<Rightarrow> point \<Rightarrow> rat) \<Rightarrow> nat \<Rightarrow> nat \<Rightarrow> database \<Rightarrow> (error + DriverDistance) \<times> database" where
  "DriversService_distanceBetween ST_Distance driverAId driverBId db =
     (let cells = map (\<lambda>(pa, pb). rint (ST_Distance pa pb))
                      (List.product (located driverAId (drivers db)) (located driverBId (drivers db)));
          db1 = issue (SELECT ''drivers'') db
      in if list_all int4_range cells
         then (case first_row cells of
                 None \<Rightarrow>
                   (Inl (NotFoundException
                      (''Could not compute distance - one or both drivers (#'' @ string_of_nat driverAId @
                       '', #'' @ string_of_nat driverBId @ '') have no location or do not exist'')), db1)
               | Some m \<Rightarrow>
                   (Inr \<lparr>driver_a = driverAId, driver_b = driverBId, dd_distance_m = m\<rparr>, db1))
         else (Inl (StoreFailure ''integer out of range''), db1))"

section \<open>Inventory (inventory.service.ts, inventory.controller.ts)\<close>

record InventoryItem =
  item_id :: nat
  item_name :: string
  item_description :: "string option"
  item_metadata :: "json option"
  item_created_at :: nat

record RankedItem = InventoryItem +
  rank :: rat

record HybridItem = InventoryItem +
  hybrid_score :: rat

definition inventory_columns :: "inventory_row \<Rightarrow> InventoryItem" where
  "inventory_columns r =
     \<lparr>item_id = inv_id r, item_name = inv_name r, item_description = inv_description r,
      item_metadata = inv_metadata r, item_created_at = inv_created_at r\<rparr>"

definition ranked_columns :: "inventory_row \<Rightarrow> rat \<Rightarrow> RankedItem" where
  "ranked_columns r x =
     \<lparr>item_id = inv_id r, item_name = inv_name r, item_description = inv_description r,
      item_metadata = inv_metadata r, item_created_at = inv_created_at r, rank = x\<rparr>"

definition hybrid_columns :: "inventory_row \<Rightarrow> rat \<Rightarrow> HybridItem" where
  "hybrid_columns r x =
     \<lparr>item_id = inv_id r, item_name = inv_name r, item_description = inv_description r,
      item_metadata = inv_metadata r, item_created_at = inv_created_at r, hybrid_score = x\<rparr>"

definition InventoryService_findOne :: "nat \<Rightarrow> database \<Rightarrow> InventoryItem option \<times> database" where
  "InventoryService_findOne iid db =
     (first_row (map inventory_columns (filter (\<lambda>r. inv_id r = iid) (inventory db))),
      issue (SELECT ''inventory'') db)"

text \<open>
  SQL \<open>LIKE\<close>: \<open>%\<close> matches any run of characters, \<open>_\<close> one character, a backslash takes
  the next character literally. \<open>ILIKE\<close> compares without regard to (ASCII) case.
\<close>

fun like :: "string \<Rightarrow> string \<Rightarrow> bool" where
  "like [] [] = True"
| "like [] (c # cs) = False"
| "like (p # ps) [] = (p = CHR ''%'' \<and> like ps [])"
| "like (p # ps) (c # cs) =
     (if p = CHR ''%'' then like ps (c # cs) \<or> like (p # ps) cs
      else if p = CHR ''_'' then like ps cs
      else if p = CHR 0x5C then (case ps of [] \<Rightarrow> False | q # qs \<Rightarrow> q = c \<and> like qs cs)
      else p = c \<and> like ps cs)"

definition lower_char :: "char \<Rightarrow> char" where
  "lower_char c =
     (case map_of (zip ''ABCDEFGHIJKLMNOPQRSTUVWXYZ'' ''abcdefghijklmnopqrstuvwxyz'') c of
        None \<Rightarrow> c
      | Some l \<Rightarrow> l)"

definition ilike :: "string \<Rightarrow> string \<Rightarrow> bool" where
  "ilike txt pattern = like (map lower_char pattern) (map lower_char txt)"

text \<open>\<open>coalesce(name, '') || ' ' || coalesce(description, '')\<close>; \<open>name\<close> is \<open>NOT NULL\<close>.\<close>

definition search_document :: "inventory_row \<Rightarrow> string" where
  "search_document r = inv_name r @ '' '' @ (case inv_description r of None \<Rightarrow> [] | Some d \<Rightarrow> d)"

text \<open>
  The full-text machinery of the store is an argument of the model:
  \<open>ts_rank doc q\<close> stands for \<open>ts_rank(to_tsvector('english', doc), plainto_tsquery('english', q))\<close>,
  \<open>ts_match doc q\<close> for \<open>to_tsvector('english', doc) @@ plainto_tsquery('english', q)\<close>, and
  \<open>cosine_distance e v\<close> for pgvector's \<open>e <=> v\<close>. \<open>ORDER BY ... DESC\<close> is a stable sort on
  the negated key.
\<close>

definition InventoryService_search ::
  "(string \<Rightarrow> string \<Rightarrow> rat) \<Rightarrow> (string \<Rightarrow> string \<Rightarrow> bool) \<Rightarrow> string \<Rightarrow> nat \<Rightarrow> database
     \<Rightarrow> RankedItem list \<times> database" where
  "InventoryService_search ts_rank ts_match query limit db =
     (let hits = filter (\<lambda>r. ts_match (search_document r) query \<or>
                               ilike (inv_name r) (''%'' @ query @ ''%''))
                        (inventory db);
          rows = map (\<lambda>r. ranked_columns r (ts_rank (search_document r) query)) hits
      in (take limit (sort_key (\<lambda>row. - rank row) rows), issue (SELECT ''inventory'') db))"

text \<open>\<open>InventoryController.search\<close>: \<open>limit\<close> defaults to \<open>'10'\<close>; the handler hands \<open>q\<close> to the
  service as it is and throws nothing itself.\<close>

definition InventoryController_search ::
  "(string \<Rightarrow> string \<Rightarrow> rat) \<Rightarrow> (string \<Rightarrow> string \<Rightarrow> bool) \<Rightarrow> string \<Rightarrow> nat option \<Rightarrow> database
     \<Rightarrow> (error + RankedItem list) \<times> database" where
  "InventoryController_search ts_rank ts_match q limit db =
     (case InventoryService_search ts_rank ts_match q (case limit of None \<Rightarrow> 10 | Some n \<Rightarrow> n) db of
        (rows, db1) \<Rightarrow> (Inr rows, db1))"

datatype hybrid_result = KeywordRows "RankedItem list" | HybridRows "HybridItem list"

text \<open>\<open>LEFT JOIN t ON t.id = i.id\<close>: the matching rows of \<open>t\<close>, or one row of NULLs.\<close>

definition left_join :: "nat \<Rightarrow> (nat \<times> rat) list \<Rightarrow> rat option list" where
  "left_join key t =
     (case filter (\<lambda>(k, x). k = key) t of
        [] \<Rightarrow> [None]
      | m # ms \<Rightarrow> map (\<lambda>(k, x). Some x) (m # ms))"

definition COALESCE :: "rat option \<Rightarrow> rat \<Rightarrow> rat" where
  "COALESCE x y = (case x of None \<Rightarrow> y | Some v \<Rightarrow> v)"

definition InventoryService_hybridSearch ::
  "(string \<Rightarrow> string \<Rightarrow> rat) \<Rightarrow> (string \<Rightarrow> string \<Rightarrow> bool) \<Rightarrow> (rat list \<Rightarrow> rat list \<Rightarrow> rat)
     \<Rightarrow> string \<Rightarrow> rat list option \<Rightarrow> nat \<Rightarrow> database \<Rightarrow> hybrid_result \<times> database" where
  "InventoryService_hybridSearch ts_rank ts_match cosine_distance query queryEmbedding limit db =
     (case queryEmbedding of
        None \<Rightarrow>
          (case InventoryService_search ts_rank ts_match query limit db of
             (rows, db1) \<Rightarrow> (KeywordRows rows, db1))
      | Some v \<Rightarrow>
          (let fts = map (\<lambda>r. (inv_id r, ts_rank (search_document r) query))
                         (filter (\<lambda>r. ts_match (search_document r) query) (inventory db));
               vec = concat (map (\<lambda>r. case inv_embedding r of
                                          None \<Rightarrow> []
                                        | Some e \<Rightarrow> [(inv_id r, 1 - cosine_distance e v)])
                                 (inventory db));
               joined = concat (map (\<lambda>i. map (\<lambda>(f, c). (i, f, c))
                                              (List.product (left_join (inv_id i) fts)
                                                            (left_join (inv_id i) vec)))
                                    (inventory db));
               kept = filter (\<lambda>(i, f, c). \<not> (f = None \<and> c = None)) joined;
               rows = map (\<lambda>(i, f, c). hybrid_columns i (COALESCE f 0 * (4 / 10) + COALESCE c 0 * (6 / 10)))
                          kept
           in (HybridRows (take limit (sort_key (\<lambda>row. - hybrid_score row) rows)),
               issue (SELECT ''inventory'') db)))"

text \<open>
  \<open>InventoryService.update\<close> builds \<open>updateData\<close> from the fields that are present and runs
  \<open>updateTable('inventory').set(updateData).where('id', '=', id).returning(...)\<close>. With an
  empty \<open>updateData\<close> the query builder emits a \<open>SET\<close> clause without assignments, which
  the store rejects.
\<close>

record UpdateInventoryDto =
  upd_inv_name :: "string option"
  upd_inv_description :: "string option"
  upd_inv_metadata :: "json option"

datatype inventory_assignment = SetItemName string | SetItemDescription string | SetItemMetadata json

fun assign_inventory :: "inventory_row \<Rightarrow> inventory_assignment \<Rightarrow> inventory_row" where
  "assign_inventory r (SetItemName v) = r\<lparr>inv_name := v\<rparr>"
| "assign_inventory r (SetItemDescription v) = r\<lparr>inv_description := Some v\<rparr>"
| "assign_inventory r (SetItemMetadata v) = r\<lparr>inv_metadata := Some v\<rparr>"

definition updateData :: "UpdateInventoryDto \<Rightarrow> inventory_assignment list" where
  "updateData dto =
     (case upd_inv_name dto of None \<Rightarrow> [] | Some v \<Rightarrow> [SetItemName v]) @
     (case upd_inv_description dto of None \<Rightarrow> [] | Some v \<Rightarrow> [SetItemDescription v]) @
     (case upd_inv_metadata dto of None \<Rightarrow> [] | Some v \<Rightarrow> [SetItemMetadata v])"

definition InventoryService_update ::
  "nat \<Rightarrow> UpdateInventoryDto \<Rightarrow> database \<Rightarrow> (error + InventoryItem option) \<times> database" where
  "InventoryService_update iid dto db =
     (if updateData dto = []
      then (Inl (StoreFailure ''syntax error at or near where''), issue (UPDATE ''inventory'') db)
      else
        let rows = map (\<lambda>r. if inv_id r = iid then foldl assign_inventory r (updateData dto) else r)
                       (inventory db)
        in (Inr (first_row (map inventory_columns (filter (\<lambda>r. inv_id r = iid) rows))),
            issue (UPDATE ''inventory'') (db\<lparr>inventory := rows\<rparr>)))"





section \<open>Telemetry (telemetry.service.ts)\<close>

text \<open>
  \<open>aggregate\<close>: \<open>time_bucket w t\<close> stands for TimescaleDB's \<open>time_bucket(w::interval, t)\<close>
  and is an argument of the model, as is the clock \<open>now\<close> read by \<open>Date.now()\<close>. The bounds
  arrive as ISO-8601 text and are taken here as already parsed; an absent or empty bound
  is \<open>None\<close>. \<open>AVG\<close> skips NULLs and is NULL over no value; \<open>ROUND(x::numeric, 2)\<close> rounds a
  tie away from zero.
\<close>

record AggregateRow =
  ag_bucket :: int
  ag_vehicle_id :: string
  avg_speed :: "rat option"
  avg_battery :: "rat option"
  avg_temperature :: "rat option"
  readings :: int

definition AVG :: "rat option list \<Rightarrow> rat option" where
  "AVG cells =
     (let vs = concat (map (\<lambda>c. case c of None \<Rightarrow> [] | Some v \<Rightarrow> [v]) cells)
      in if vs = [] then None else Some (sum_list vs / of_nat (length vs)))"

definition ROUND2 :: "rat \<Rightarrow> rat" where
  "ROUND2 x =
     (if 0 \<le> x then of_int \<lfloor>x * 100 + 1 / 2\<rfloor> / 100
      else - (of_int \<lfloor>- x * 100 + 1 / 2\<rfloor> / 100))"

definition aggregate_group :: "(string \<Rightarrow> int \<Rightarrow> int) \<Rightarrow> string \<Rightarrow> telemetry_row list \<Rightarrow> int \<times> string \<Rightarrow> AggregateRow" where
  "aggregate_group time_bucket width rows g =
     (let members = filter (\<lambda>r. (time_bucket width (tm_time r), tm_vehicle_id r) = g) rows
      in \<lparr>ag_bucket = fst g,
          ag_vehicle_id = snd g,
          avg_speed = map_option ROUND2 (AVG (map tm_speed members)),
          avg_battery = map_option ROUND2 (AVG (map tm_battery_level members)),
          avg_temperature = map_option ROUND2 (AVG (map tm_temperature members)),
          readings = int (length members)\<rparr>)"

definition TelemetryService_aggregate ::
  "(string \<Rightarrow> int \<Rightarrow> int) \<Rightarrow> int \<Rightarrow> string \<Rightarrow> string option \<Rightarrow> int option \<Rightarrow> int option \<Rightarrow> database
     \<Rightarrow> AggregateRow list \<times> database" where
  "TelemetryService_aggregate time_bucket now vehicle_id bucket from to db =
     (let width = (case bucket of None \<Rightarrow> ''1 hour'' | Some b \<Rightarrow> b);
          fromTime = (case from of None \<Rightarrow> now - 86400000 | Some t \<Rightarrow> t);
          toTime = (case to of None \<Rightarrow> now | Some t \<Rightarrow> t);
          rows = filter (\<lambda>r. tm_vehicle_id r = vehicle_id \<and> fromTime \<le> tm_time r \<and> tm_time r \<le> toTime)
                        (vehicle_telemetry db);
          groups = remdups (map (\<lambda>r. (time_bucket width (tm_time r), tm_vehicle_id r)) rows)
      in (sort_key (\<lambda>row. - ag_bucket row) (map (aggregate_group time_bucket width rows) groups),
          issue (SELECT ''vehicle_telemetry'') db))"


text \<open>
  The readings the amended claim C7 speaks of: those of vehicle \<open>v\<close> with a time in the
  closed window from \<open>f\<close> to \<open>t\<close> that \<open>time_bucket\<close> places in bucket \<open>b\<close>.
\<close>

definition bucket_readings ::
  "(string \<Rightarrow> int \<Rightarrow> int) \<Rightarrow> string \<Rightarrow> string \<Rightarrow> int \<Rightarrow> int \<Rightarrow> int \<Rightarrow> telemetry_row list \<Rightarrow> telemetry_row list" where
  "bucket_readings time_bucket w v f t b rs =
     filter (\<lambda>r. tm_vehicle_id r = v \<and> f \<le> tm_time r \<and> tm_time r \<le> t \<and> time_bucket w (tm_time r) = b) rs"

section \<open>Concrete inputs\<close>

text \<open>A small database in the shape of the seed data of migration 001, used to run the
  model.\<close>

definition headphones :: inventory_row where
  "headphones =
     \<lparr>inv_id = 1, inv_name = ''Wireless Headphones'',
      inv_description = Some ''Noise-cancelling Bluetooth headphones'',
      inv_metadata = Some (JObject [(''category'', JString ''electronics'')]),
      inv_embedding = None, inv_created_at = 100\<rparr>"

definition cable :: inventory_row where
  "cable =
     \<lparr>inv_id = 2, inv_name = ''USB-C Cable 6ft'',
      inv_description = Some ''Fast-charging braided cable'',
      inv_metadata = Some (JObject [(''category'', JString ''accessories'')]),
      inv_embedding = Some [1, 0], inv_created_at = 100\<rparr>"

definition alice :: driver_row where
  "alice = \<lparr>drv_id = 1, drv_name = ''Alice Chen'',
             drv_location = Some \<lparr>pt_lon = - 122.4194, pt_lat = 37.7749\<rparr>, drv_status = ''online''\<rparr>"

definition bob :: driver_row where
  "bob = \<lparr>drv_id = 2, drv_name = ''Bob Okafor'',
           drv_location = Some \<lparr>pt_lon = - 122.4094, pt_lat = 37.7849\<rparr>, drv_status = ''online''\<rparr>"

definition carol :: driver_row where
  "carol = \<lparr>drv_id = 3, drv_name = ''Carol Diaz'', drv_location = None, drv_status = ''offline''\<rparr>"

definition reading_a :: telemetry_row where
  "reading_a = \<lparr>tm_time = 3600000, tm_vehicle_id = ''vehicle-abc-123'', tm_speed = Some 60,
                 tm_battery_level = Some 90, tm_temperature = None, tm_location = None\<rparr>"

definition reading_b :: telemetry_row where
  "reading_b = \<lparr>tm_time = 7200000, tm_vehicle_id = ''vehicle-abc-123'', tm_speed = Some 70,
                 tm_battery_level = None, tm_temperature = None, tm_location = None\<rparr>"

definition order_one :: Order where
  "order_one =
     \<lparr>order_id = 1, order_customer_id = ''customer-uuid-123'', order_driver_id = ''driver-uuid-456'',
      order_inventory_id = ''item-uuid-789'', order_quantity = 3, order_status = Queued,
      order_metadata = JObject [], order_created_at = 500, order_updated_at = 600\<rparr>"

definition seed_db :: database where
  "seed_db =
     \<lparr>inventory = [headphones, cable],
      drivers = [alice, bob, carol],
      vehicle_telemetry = [reading_a, reading_b],
      orders = [order_one],
      orders_id_seq = 2,
      issued = []\<rparr>"

definition order_request :: CreateOrderDto where
  "order_request =
     \<lparr>customerId = ''customer-uuid-123'', driverId = ''driver-uuid-456'',
      inventoryId = ''item-uuid-789'', quantity = 2, metadata = None\<rparr>"

definition broker_up :: channel where
  "broker_up m = Returns True"

definition rename_to :: "string \<Rightarrow> UpdateOrderDto" where
  "rename_to c =
     \<lparr>upd_customerId = Some c, upd_driverId = None, upd_inventoryId = None,
      upd_quantity = None, upd_metadata = None\<rparr>"

text \<open>Stand-ins for the store's extension functions on these inputs: a grid metric
  (100 km per degree along each axis), hourly buckets aligned with the epoch, a
  prefix test for the text match and an equality test for the vector distance.\<close>

definition grid_distance :: "point \<Rightarrow> point \<Rightarrow> rat" where
  "grid_distance p q = 100000 * (\<bar>pt_lon p - pt_lon q\<bar> + \<bar>pt_lat p - pt_lat q\<bar>)"


definition hour_bucket :: "string \<Rightarrow> int \<Rightarrow> int" where
  "hour_bucket w t = t - t mod 3600000"

definition prefix_match :: "string \<Rightarrow> string \<Rightarrow> bool" where
  "prefix_match doc q = (if q = [] then False else take (length q) doc = q)"

definition prefix_rank :: "string \<Rightarrow> string \<Rightarrow> rat" where
  "prefix_rank doc q = (if prefix_match doc q then 1 / 10 else 0)"

definition same_vector_distance :: "rat list \<Rightarrow> rat list \<Rightarrow> rat" where
  "same_vector_distance e v = (if e = v then 0 else 1)"


section \<open>Properties of the order service\<close>

lemma map_other_ids:
  "n \<notin> set (map order_id rows) \<Longrightarrow> map (\<lambda>row. if order_id row = n then f row else row) rows = rows"
  by (induction rows) auto

lemma filter_other_ids:
  "n \<notin> set (map order_id rows) \<Longrightarrow> filter (\<lambda>row. order_id row = n) rows = []"
  by (induction rows) auto

lemma insert_order_valid:
  assumes "0 < quantity dto" "quantity dto \<le> 2147483647"
      and "orders_id_seq db \<notin> set (map order_id (orders db))"
  shows "insert_order now dto db =
     (Inr (inserted_order (orders_id_seq db) now dto),
      db\<lparr>orders := orders db @ [inserted_order (orders_id_seq db) now dto],
         orders_id_seq := orders_id_seq db + 1,
         issued := issued db @ [INSERT ''orders'']\<rparr>)"
  using assms by (simp add: insert_order_def issue_def int4_range_def Let_def)

lemma insert_order_nonpositive:
  assumes "quantity dto \<le> 0" "- 2147483648 \<le> quantity dto"
  shows "insert_order now dto db =
     (Inl (StoreFailure ''violates check constraint orders_quantity_check''),
      db\<lparr>orders_id_seq := orders_id_seq db + 1, issued := issued db @ [INSERT ''orders'']\<rparr>)"
  using assms by (simp add: insert_order_def issue_def int4_range_def Let_def)

lemma update_status_fresh:
  assumes "order_id row \<notin> set (map order_id rows)"
  shows "update_order_status now st (order_id row) (db\<lparr>orders := rows @ [row]\<rparr>) =
     ([row\<lparr>order_status := st, order_updated_at := now\<rparr>],
      issue (UPDATE ''orders'') (db\<lparr>orders := rows @ [row\<lparr>order_status := st, order_updated_at := now\<rparr>]\<rparr>))"
  using assms
  by (simp add: update_order_status_def Let_def orders_set_updated_at_def map_other_ids filter_other_ids)

lemma publishToQueue_iff:
  "publishToQueue chan now order = (\<exists>ch. chan = Some ch \<and> ch (order_message now order) = Returns True)"
  by (auto simp: publishToQueue_def split: option.splits send_outcome.splits)

text \<open>
  Claim C1. For a creation request the store accepts (a positive quantity within the
  column's range, and a sequence value that is not yet a key), \<open>create\<close> first inserts
  the row with status \<open>Pending\<close>. When the channel exists and \<open>sendToQueue\<close> returns
  true, it updates the status to \<open>Queued\<close> and returns the updated row. In every other
  case (no channel, \<open>sendToQueue\<close> throws or returns false) it returns the inserted row
  itself and the database as the insert left it. The result is never an error.
\<close>

theorem create_pending_then_queued:
  assumes "0 < quantity dto" and "quantity dto \<le> 2147483647"
      and "orders_id_seq db \<notin> set (map order_id (orders db))"
  shows "\<exists>row db1.
      insert_order t_ins dto db = (Inr row, db1) \<and>
      order_status row = Pending \<and>
      orders db1 = orders db @ [row] \<and>
      OrdersService_create chan t_ins t_pub t_upd dto db =
        (if \<exists>ch. chan = Some ch \<and> ch (order_message t_pub row) = Returns True
         then (Inr (Some (row\<lparr>order_status := Queued, order_updated_at := t_upd\<rparr>)),
               issue (UPDATE ''orders'')
                 (db1\<lparr>orders := orders db @ [row\<lparr>order_status := Queued, order_updated_at := t_upd\<rparr>]\<rparr>))
         else (Inr (Some row), db1))"
proof -
  let ?row = "inserted_order (orders_id_seq db) t_ins dto"
  let ?db1 = "db\<lparr>orders := orders db @ [?row],
         orders_id_seq := orders_id_seq db + 1,
         issued := issued db @ [INSERT ''orders'']\<rparr>"
  have ins: "insert_order t_ins dto db = (Inr ?row, ?db1)"
    using assms by (rule insert_order_valid)
  have st: "order_status ?row = Pending"
    by (simp add: inserted_order_def)
  have fresh: "order_id ?row \<notin> set (map order_id (orders db))"
    using assms(3) by (simp add: inserted_order_def)
  have db1: "?db1 = (db\<lparr>orders_id_seq := orders_id_seq db + 1,
         issued := issued db @ [INSERT ''orders'']\<rparr>)\<lparr>orders := orders db @ [?row]\<rparr>"
    by simp
  have upd: "update_order_status t_upd Queued (order_id ?row) ?db1 =
     ([?row\<lparr>order_status := Queued, order_updated_at := t_upd\<rparr>],
      issue (UPDATE ''orders'')
        (?db1\<lparr>orders := orders db @ [?row\<lparr>order_status := Queued, order_updated_at := t_upd\<rparr>]\<rparr>))"
    unfolding db1 using update_status_fresh [OF fresh] by simp
  have "OrdersService_create chan t_ins t_pub t_upd dto db =
        (if \<exists>ch. chan = Some ch \<and> ch (order_message t_pub ?row) = Returns True
         then (Inr (Some (?row\<lparr>order_status := Queued, order_updated_at := t_upd\<rparr>)),
               issue (UPDATE ''orders'')
                 (?db1\<lparr>orders := orders db @ [?row\<lparr>order_status := Queued, order_updated_at := t_upd\<rparr>]\<rparr>))
         else (Inr (Some ?row), ?db1))"
    unfolding OrdersService_create_def ins
    by (simp only: prod.case sum.case upd publishToQueue_iff first_row.simps split: if_splits)
  with ins st show ?thesis by (intro exI [of _ ?row] exI [of _ ?db1]) simp
qed

theorem create_pending_then_queued_witness:
  "fst (OrdersService_create None 10 11 12 order_request seed_db) =
     Inr (Some \<lparr>order_id = 2, order_customer_id = ''customer-uuid-123'',
                order_driver_id = ''driver-uuid-456'', order_inventory_id = ''item-uuid-789'',
                order_quantity = 2, order_status = Pending, order_metadata = JObject [],
                order_created_at = 10, order_updated_at = 10\<rparr>) \<and>
   fst (OrdersService_create (Some broker_up) 10 11 12 order_request seed_db) =
     Inr (Some \<lparr>order_id = 2, order_customer_id = ''customer-uuid-123'',
                order_driver_id = ''driver-uuid-456'', order_inventory_id = ''item-uuid-789'',
                order_quantity = 2, order_status = Queued, order_metadata = JObject [],
                order_created_at = 10, order_updated_at = 12\<rparr>)"
  using create_pending_then_queued [of order_request seed_db 10 None 11 12]
        create_pending_then_queued [of order_request seed_db 10 "Some broker_up" 11 12]
  by (auto simp: order_request_def seed_db_def order_one_def broker_up_def insert_order_def issue_def
        int4_range_def Let_def inserted_order_def)

text \<open>
  Claim C2, run at a request with quantity 0. The decorators of the DTO reject the
  request, but nothing evaluates them: the handler passes the body on, the insert
  violates the check constraint of the table, and the answer is a store failure with
  status 500, not 400. No row is written; the sequence has advanced.
\<close>

theorem create_quantity_zero_is_store_failure:
  "\<not> CreateOrderDto_decorators (order_request\<lparr>quantity := 0\<rparr>) \<and>
   OrdersController_create (Some broker_up) 10 11 12 (order_request\<lparr>quantity := 0\<rparr>) seed_db =
     (Inl (StoreFailure ''violates check constraint orders_quantity_check''),
      seed_db\<lparr>orders_id_seq := 3, issued := [INSERT ''orders'']\<rparr>) \<and>
   http_status (StoreFailure ''violates check constraint orders_quantity_check'') = 500"
  by (simp add: CreateOrderDto_decorators_def OrdersController_create_def transform_body_def
      bootstrap_global_pipes_def OrdersService_create_def insert_order_nonpositive
      order_request_def seed_db_def)

text \<open>With a ValidationPipe in place the same body would be answered with status 400.\<close>

lemma validation_pipe_would_reject:
  "transform_body [ValidationPipe] (order_request\<lparr>quantity := 0\<rparr>) = Inl (BadRequestException ''Bad Request'') \<and>
   http_status (BadRequestException ''Bad Request'') = 400"
  by (simp add: transform_body_def CreateOrderDto_decorators_def order_request_def)

text \<open>The same holds for every quantity that is not positive, whatever the channel does.\<close>

lemma create_nonpositive_quantity:
  assumes "quantity body \<le> 0" "- 2147483648 \<le> quantity body"
  shows "OrdersController_create chan t_ins t_pub t_upd body db =
     (Inl (StoreFailure ''violates check constraint orders_quantity_check''),
      db\<lparr>orders_id_seq := orders_id_seq db + 1, issued := issued db @ [INSERT ''orders'']\<rparr>)"
  using assms
  by (simp add: OrdersController_create_def transform_body_def
      bootstrap_global_pipes_def OrdersService_create_def insert_order_nonpositive)

lemma string_of_nat_digit: "n < 10 \<Longrightarrow> string_of_nat n = [digit_char n]"
  by (subst string_of_nat.simps) simp

lemma update_query_columns_only:
  "map fst (update_fields_values d1) = map fst (update_fields_values d2) \<Longrightarrow>
   update_query oid d1 = update_query oid d2"
  by (simp add: update_query_def)

lemma OrdersService_update_columns_only:
  assumes "map fst (update_fields_values d1) = map fst (update_fields_values d2)"
  shows "OrdersService_update exec now oid d1 db = OrdersService_update exec now oid d2 db"
proof -
  have q: "update_query oid d1 = update_query oid d2"
    using assms by (rule update_query_columns_only)
  show ?thesis
    unfolding OrdersService_update_def q assms ..
qed

text \<open>
  Claim C3, run at an update of the customer of order 1. The compiled statement names the
  parameter \<open>$1\<close> for the column and again for the row, and is sent with the single
  parameter \<open>[id]\<close>: the new value is not part of it. Hence, whatever the store does with
  the statement, renaming the customer to ''bob'' and to ''alice'' have the same outcome,
  so the stored row cannot reflect the supplied value in both cases.
\<close>

theorem order_update_never_binds_values:
  "update_query 1 (rename_to ''bob'') =
     \<lparr>cq_sql = ''UPDATE orders SET customer_id = $1, updated_at = NOW() WHERE id = $1 RETURNING *'',
      cq_parameters = [SqlInt 1]\<rparr> \<and>
   (\<forall>exec now. OrdersService_update exec now 1 (rename_to ''bob'') seed_db =
                OrdersService_update exec now 1 (rename_to ''alice'') seed_db)"
proof -
  have same: "map fst (update_fields_values (rename_to ''bob'')) = map fst (update_fields_values (rename_to ''alice''))"
    by (simp add: update_fields_values_def rename_to_def pushed_def)
  have "\<forall>exec now. OrdersService_update exec now 1 (rename_to ''bob'') seed_db =
                OrdersService_update exec now 1 (rename_to ''alice'') seed_db"
    by (intro allI OrdersService_update_columns_only same)
  moreover have "update_query 1 (rename_to ''bob'') =
     \<lparr>cq_sql = ''UPDATE orders SET customer_id = $1, updated_at = NOW() WHERE id = $1 RETURNING *'',
      cq_parameters = [SqlInt 1]\<rparr>"
    by (simp add: update_query_def update_fields_values_def rename_to_def pushed_def setClauses_def
        string_of_nat_digit digit_char_def)
  ultimately show ?thesis by simp
qed


text \<open>With two fields present the statement names \<open>$2\<close> and still carries one parameter.\<close>

lemma update_query_two_fields:
  "update_query 1 ((rename_to ''bob'')\<lparr>upd_quantity := Some 5\<rparr>) =
     \<lparr>cq_sql = ''UPDATE orders SET customer_id = $1, quantity = $2, updated_at = NOW() WHERE id = $1 RETURNING *'',
      cq_parameters = [SqlInt 1]\<rparr>"
  by (simp add: update_query_def update_fields_values_def rename_to_def pushed_def setClauses_def
      string_of_nat_digit digit_char_def)

lemma OrdersService_findOne_found:
  "first_row (filter (\<lambda>row. order_id row = oid) (orders db)) = Some order \<Longrightarrow>
   OrdersService_findOne oid db = (Inr order, issue (SELECT ''orders'') db)"
  by (simp add: OrdersService_findOne_def select_order_def)

lemma DriversService_findOne_found:
  "first_row (filter (\<lambda>d. drv_id d = did) (drivers db)) = Some d \<Longrightarrow>
   DriversService_findOne did db = (Inr (driver_columns d), issue (SELECT ''drivers'') db)"
  by (cases "filter (\<lambda>d. drv_id d = did) (drivers db)") (simp_all add: DriversService_findOne_def)

text \<open>
  Claim C10. When the store holds a row under the identifier, an update whose body has
  none of the recognised fields returns that row as it is stored (for an order with its
  \<open>updated_at\<close>), leaves every table as it was and issues two \<open>SELECT\<close> statements
  and no \<open>UPDATE\<close>. This holds for orders (whatever the store would answer to the
  spliced statement) and for drivers.
\<close>

theorem empty_update_is_identity:
  "(first_row (filter (\<lambda>row. order_id row = oid) (orders db)) = Some order \<longrightarrow>
      OrdersService_update exec now oid
        \<lparr>upd_customerId = None, upd_driverId = None, upd_inventoryId = None,
         upd_quantity = None, upd_metadata = None\<rparr> db =
      (Inr (Some order), db\<lparr>issued := issued db @ [SELECT ''orders'', SELECT ''orders'']\<rparr>)) \<and>
   (first_row (filter (\<lambda>d. drv_id d = did) (drivers db)) = Some d \<longrightarrow>
      DriversService_update did \<lparr>upd_name = None, upd_status = None, upd_location = None\<rparr> db =
      (Inr (Some (driver_columns d)),
       db\<lparr>issued := issued db @ [SELECT ''drivers'', SELECT ''drivers'']\<rparr>))"
proof (intro conjI impI)
  assume a: "first_row (filter (\<lambda>row. order_id row = oid) (orders db)) = Some order"
  then have b: "first_row (filter (\<lambda>row. order_id row = oid) (orders (issue (SELECT ''orders'') db))) = Some order"
    by (simp add: issue_def)
  show "OrdersService_update exec now oid
        \<lparr>upd_customerId = None, upd_driverId = None, upd_inventoryId = None,
         upd_quantity = None, upd_metadata = None\<rparr> db =
      (Inr (Some order), db\<lparr>issued := issued db @ [SELECT ''orders'', SELECT ''orders'']\<rparr>)"
    by (simp add: OrdersService_update_def OrdersService_findOne_found [OF a]
        OrdersService_findOne_found [OF b] update_fields_values_def pushed_def)
       (simp add: issue_def)
next
  assume a: "first_row (filter (\<lambda>d. drv_id d = did) (drivers db)) = Some d"
  then have b: "first_row (filter (\<lambda>d. drv_id d = did) (drivers (issue (SELECT ''drivers'') db))) = Some d"
    by (simp add: issue_def)
  show "DriversService_update did \<lparr>upd_name = None, upd_status = None, upd_location = None\<rparr> db =
      (Inr (Some (driver_columns d)),
       db\<lparr>issued := issued db @ [SELECT ''drivers'', SELECT ''drivers'']\<rparr>)"
    by (simp add: DriversService_update_def DriversService_findOne_found [OF a]
        DriversService_findOne_found [OF b] setParts_def)
       (simp add: issue_def)
qed

theorem empty_update_is_identity_witness:
  "OrdersService_update (\<lambda>q t db. (Inl (StoreFailure ''unused''), db)) 900 1
        \<lparr>upd_customerId = None, upd_driverId = None, upd_inventoryId = None,
         upd_quantity = None, upd_metadata = None\<rparr> seed_db =
      (Inr (Some order_one), seed_db\<lparr>issued := [SELECT ''orders'', SELECT ''orders'']\<rparr>) \<and>
   DriversService_update 3 \<lparr>upd_name = None, upd_status = None, upd_location = None\<rparr> seed_db =
      (Inr (Some \<lparr>dr_id = 3, dr_name = ''Carol Diaz'', dr_status = ''offline'', dr_location = None\<rparr>),
       seed_db\<lparr>issued := [SELECT ''drivers'', SELECT ''drivers'']\<rparr>)"
  using empty_update_is_identity [of 1 seed_db order_one "\<lambda>q t db. (Inl (StoreFailure ''unused''), db)" 900 3 carol]
  by (simp add: seed_db_def order_one_def carol_def alice_def bob_def driver_columns_def)


section \<open>Properties of the inventory service\<close>

lemma filter_key_distinct:
  "distinct (map f xs) \<Longrightarrow> x \<in> set xs \<Longrightarrow> filter (\<lambda>y. f y = f x) xs = [x]"
proof (induction xs)
  case Nil
  then show ?case by simp
next
  case (Cons a xs)
  show ?case
  proof (cases "a = x")
    case True
    with Cons.prems have "f x \<notin> f ` set xs" by simp
    then have "\<forall>y\<in>set xs. f y \<noteq> f x"
      by (metis imageI)
    then have "filter (\<lambda>y. f y = f x) xs = []"
      by (simp add: filter_empty_conv)
    with True show ?thesis by simp
  next
    case False
    with Cons.prems have "x \<in> set xs" by simp
    moreover from this Cons.prems have "f a \<noteq> f x" by auto
    ultimately show ?thesis using Cons by simp
  qed
qed











lemma seed_inventory: "inventory seed_db = [headphones, cable]"
  by (simp add: seed_db_def)

lemma headphones_match: "prefix_match (search_document headphones) ''Wireless''"
  by (simp add: prefix_match_def search_document_def headphones_def)

lemma cable_match: "\<not> prefix_match (search_document cable) ''Wireless''"
  by (simp add: prefix_match_def search_document_def cable_def)


text \<open>
  Claim C4. Hybrid search without an embedding vector returns the rows keyword search
  returns for the same query and limit, in the same order, and leaves the database in the
  same state.
\<close>

theorem hybrid_without_embedding_is_keyword_search:
  "InventoryService_hybridSearch ts_rank ts_match cosine_distance query None limit db =
     (KeywordRows (fst (InventoryService_search ts_rank ts_match query limit db)),
      snd (InventoryService_search ts_rank ts_match query limit db))"
  by (simp add: InventoryService_hybridSearch_def split: prod.splits)

lemma ilike_cable: "\<not> ilike (inv_name cable) ''%Wireless%''"
  by (simp add: cable_def ilike_def lower_char_def)

lemma search_wireless:
  "fst (InventoryService_search prefix_rank prefix_match ''Wireless'' 10 seed_db) =
     [ranked_columns headphones (1 / 10)]"
  unfolding InventoryService_search_def Let_def seed_inventory fst_conv
  by (simp add: headphones_match cable_match ilike_cable prefix_rank_def)

theorem hybrid_without_embedding_is_keyword_search_witness:
  "fst (InventoryService_hybridSearch prefix_rank prefix_match same_vector_distance
          ''Wireless'' None 10 seed_db) =
     KeywordRows [ranked_columns headphones (1 / 10)]"
  using hybrid_without_embedding_is_keyword_search
     [of prefix_rank prefix_match same_vector_distance "''Wireless''" 10 seed_db]
  by (simp add: search_wireless)

lemma like_percent: "like ''%'' s"
  by (induction s) auto

lemma like_percent_percent: "like ''%%'' s"
  by (induction s) (auto simp: like_percent)

lemma ilike_empty_query: "ilike txt ''%%''"
  by (simp add: ilike_def lower_char_def like_percent_percent)

text \<open>
  Claim C8, amended. Keyword search with the empty query string does not fail. The
  pattern of its substring condition is then \<open>%%\<close>, which every name matches, so the
  handler answers with the catalogue ordered by descending rank and cut at \<open>limit\<close>.
\<close>

theorem search_empty_query_returns_catalog:
  "InventoryController_search ts_rank ts_match [] limit db =
     (Inr (take (case limit of None \<Rightarrow> 10 | Some n \<Rightarrow> n)
            (sort_key (\<lambda>row. - rank row)
               (map (\<lambda>r. ranked_columns r (ts_rank (search_document r) [])) (inventory db)))),
      issue (SELECT ''inventory'') db)"
  unfolding InventoryController_search_def InventoryService_search_def Let_def
  by (simp add: ilike_empty_query)

lemma rank_ranked_columns: "rank (ranked_columns r x) = x"
  by (simp add: ranked_columns_def)

text \<open>
  Claim C8 as stated fails: on the seed catalogue the empty query returns both items.
\<close>

theorem search_empty_query_returns_rows:
  "fst (InventoryController_search prefix_rank prefix_match [] None seed_db) =
     Inr [ranked_columns headphones 0, ranked_columns cable 0]"
  unfolding InventoryController_search_def InventoryService_search_def Let_def seed_inventory
  by (simp add: ilike_empty_query prefix_rank_def prefix_match_def rank_ranked_columns)

theorem search_empty_query_returns_catalog_witness:
  "fst (InventoryController_search prefix_rank prefix_match [] (Some 1) seed_db) =
     Inr [ranked_columns headphones 0]"
  using search_empty_query_returns_catalog [of prefix_rank prefix_match "Some 1" seed_db]
  by (simp add: seed_inventory prefix_rank_def prefix_match_def rank_ranked_columns)


section \<open>Properties of the driver service\<close>






lemma nearby_hits_complete:
  "d \<in> set ds \<Longrightarrow> drv_location d = Some p \<Longrightarrow> ST_DWithin p here r \<Longrightarrow> statusFilter status d \<Longrightarrow>
   (d, p) \<in> set (nearby_hits ST_DWithin here r status ds)"
  by (induction ds) (auto simp: nearby_hits_def split: option.splits if_splits)



lemma seed_drivers: "drivers seed_db = [alice, bob, carol]"
  by (simp add: seed_db_def)






lemma located_key:
  assumes "distinct (map drv_id ds)" "d \<in> set ds" "drv_location d = Some p"
  shows "located (drv_id d) ds = [p]"
  using filter_key_distinct [OF assms(1,2)] assms(3) by (simp add: located_def)

lemma distanceBetween_located:
  assumes "located a (drivers db) = [pa]" "located b (drivers db) = [pb]"
      and "int4_range (rint (ST_Distance pa pb))"
  shows "fst (DriversService_distanceBetween ST_Distance a b db) =
           Inr \<lparr>driver_a = a, driver_b = b, dd_distance_m = rint (ST_Distance pa pb)\<rparr>"
  using assms by (simp add: DriversService_distanceBetween_def)

text \<open>
  Claim C9. Let \<open>ST_Distance\<close> be symmetric and \<open>id\<close> a key of the table. For two stored
  drivers that both have a location (and a distance that fits the integer cast),
  \<open>distanceBetween\<close> returns in both orders of the identifiers, with the same
  \<open>distance_m\<close>.
\<close>

theorem distanceBetween_symmetric:
  assumes sym: "\<forall>p q. ST_Distance p q = ST_Distance q p"
      and key: "distinct (map drv_id (drivers db))"
      and a: "da \<in> set (drivers db)" "drv_location da = Some pa"
      and b: "db' \<in> set (drivers db)" "drv_location db' = Some pb"
      and fits: "int4_range (rint (ST_Distance pa pb))"
  shows "fst (DriversService_distanceBetween ST_Distance (drv_id da) (drv_id db') db) =
           Inr \<lparr>driver_a = drv_id da, driver_b = drv_id db',
                dd_distance_m = rint (ST_Distance pa pb)\<rparr> \<and>
         fst (DriversService_distanceBetween ST_Distance (drv_id db') (drv_id da) db) =
           Inr \<lparr>driver_a = drv_id db', driver_b = drv_id da,
                dd_distance_m = rint (ST_Distance pa pb)\<rparr>"
proof -
  have la: "located (drv_id da) (drivers db) = [pa]"
    using key a by (rule located_key)
  have lb: "located (drv_id db') (drivers db) = [pb]"
    using key b by (rule located_key)
  have swapped: "ST_Distance pb pa = ST_Distance pa pb"
    using sym by simp
  have fits': "int4_range (rint (ST_Distance pb pa))"
    using fits swapped by simp
  have ab: "fst (DriversService_distanceBetween ST_Distance (drv_id da) (drv_id db') db) =
           Inr \<lparr>driver_a = drv_id da, driver_b = drv_id db',
                dd_distance_m = rint (ST_Distance pa pb)\<rparr>"
    using la lb fits by (rule distanceBetween_located)
  have ba: "fst (DriversService_distanceBetween ST_Distance (drv_id db') (drv_id da) db) =
           Inr \<lparr>driver_a = drv_id db', driver_b = drv_id da,
                dd_distance_m = rint (ST_Distance pb pa)\<rparr>"
    using lb la fits' by (rule distanceBetween_located)
  from ab ba show ?thesis by (simp add: swapped)
qed

theorem distanceBetween_symmetric_witness:
  "fst (DriversService_distanceBetween grid_distance 1 2 seed_db) =
     Inr \<lparr>driver_a = 1, driver_b = 2, dd_distance_m = 2000\<rparr> \<and>
   fst (DriversService_distanceBetween grid_distance 2 1 seed_db) =
     Inr \<lparr>driver_a = 2, driver_b = 1, dd_distance_m = 2000\<rparr>"
proof -
  have sym: "\<forall>p q. grid_distance p q = grid_distance q p"
    by (simp add: grid_distance_def abs_minus_commute)
  have key: "distinct (map drv_id (drivers seed_db))"
    by (simp add: seed_drivers alice_def bob_def carol_def)
  have d: "rint (grid_distance \<lparr>pt_lon = - 122.4194, pt_lat = 37.7749\<rparr>
                              \<lparr>pt_lon = - 122.4094, pt_lat = 37.7849\<rparr>) = 2000"
    by (simp add: grid_distance_def rint_def)
  have fits: "int4_range (rint (grid_distance \<lparr>pt_lon = - 122.4194, pt_lat = 37.7749\<rparr>
                              \<lparr>pt_lon = - 122.4094, pt_lat = 37.7849\<rparr>))"
    unfolding d by (simp add: int4_range_def)
  have a: "alice \<in> set (drivers seed_db)"
    "drv_location alice = Some \<lparr>pt_lon = - 122.4194, pt_lat = 37.7749\<rparr>"
    by (simp_all add: seed_drivers alice_def)
  have b: "bob \<in> set (drivers seed_db)"
    "drv_location bob = Some \<lparr>pt_lon = - 122.4094, pt_lat = 37.7849\<rparr>"
    by (simp_all add: seed_drivers bob_def)
  have ids: "drv_id alice = 1" "drv_id bob = 2"
    by (simp_all add: alice_def bob_def)
  from distanceBetween_symmetric [of grid_distance, OF sym key a b fits]
  show ?thesis
    by (simp only: ids d)
qed


section \<open>Properties of the telemetry service\<close>

lemma distinct_map_sort_key:
  "distinct (map k xs) \<Longrightarrow> distinct (map k (sort_key k xs))"
  by (induction xs) (auto simp: distinct_insort_key)

lemma sort_key_strictly_descending:
  fixes g :: "'a \<Rightarrow> int"
  assumes "distinct (map g xs)"
  shows "sorted_wrt (\<lambda>a b. b < a) (map g (sort_key (\<lambda>x. - g x) xs))"
proof -
  let ?k = "\<lambda>x. - g x"
  have "distinct (map ?k xs)"
    using assms by (simp add: distinct_map inj_on_def)
  then have "distinct (map ?k (sort_key ?k xs))"
    by (rule distinct_map_sort_key)
  moreover have "sorted (map ?k (sort_key ?k xs))"
    by (rule sorted_sort_key)
  ultimately have "sorted_wrt (<) (map ?k (sort_key ?k xs))"
    by (simp add: strict_sorted_iff)
  then show ?thesis
    by (simp add: sorted_wrt_map)
qed

lemma ag_bucket_group: "ag_bucket (aggregate_group tb w rows g) = fst g"
  by (simp add: aggregate_group_def Let_def)

lemma aggregate_explicit:
  "TelemetryService_aggregate tb now v bucket (Some f) (Some t) db =
     (let w = (case bucket of None \<Rightarrow> ''1 hour'' | Some b \<Rightarrow> b);
          rows = filter (\<lambda>r. tm_vehicle_id r = v \<and> f \<le> tm_time r \<and> tm_time r \<le> t) (vehicle_telemetry db)
      in (sort_key (\<lambda>row. - ag_bucket row)
            (map (aggregate_group tb w rows)
                 (remdups (map (\<lambda>r. (tb w (tm_time r), tm_vehicle_id r)) rows))),
          issue (SELECT ''vehicle_telemetry'') db))"
  by (simp add: TelemetryService_aggregate_def Let_def)

text \<open>
  Claim C7, amended. For one vehicle, \<open>aggregate\<close> groups the readings whose time lies in
  the closed window from \<open>from\<close> to \<open>to\<close> (both ends included) by their
  \<open>time_bucket\<close>. It returns one row per bucket that holds a reading, in strictly
  descending order of the bucket start. A row carries the number of readings of its
  bucket and, for each of speed, battery level and temperature, the mean of the values
  that are present, rounded to two decimals (NULL when none is present). Absent bounds
  are the trailing 24 hours: \<open>now - 86400000\<close> and \<open>now\<close>.
\<close>

theorem aggregate_closed_window_buckets:
  "\<exists>rows w.
     w = (case bucket of None \<Rightarrow> ''1 hour'' | Some b \<Rightarrow> b) \<and>
     TelemetryService_aggregate time_bucket now v bucket (Some f) (Some t) db =
       (rows, issue (SELECT ''vehicle_telemetry'') db) \<and>
     set (map ag_bucket rows) =
       (\<lambda>r. time_bucket w (tm_time r)) `
         {r \<in> set (vehicle_telemetry db). tm_vehicle_id r = v \<and> f \<le> tm_time r \<and> tm_time r \<le> t} \<and>
     sorted_wrt (\<lambda>a b. b < a) (map ag_bucket rows) \<and>
     (\<forall>row \<in> set rows.
        ag_vehicle_id row = v \<and>
        readings row = int (length (bucket_readings time_bucket w v f t (ag_bucket row) (vehicle_telemetry db))) \<and>
        0 < readings row \<and>
        avg_speed row = map_option ROUND2
          (AVG (map tm_speed (bucket_readings time_bucket w v f t (ag_bucket row) (vehicle_telemetry db)))) \<and>
        avg_battery row = map_option ROUND2
          (AVG (map tm_battery_level (bucket_readings time_bucket w v f t (ag_bucket row) (vehicle_telemetry db)))) \<and>
        avg_temperature row = map_option ROUND2
          (AVG (map tm_temperature (bucket_readings time_bucket w v f t (ag_bucket row) (vehicle_telemetry db))))) \<and>
     TelemetryService_aggregate time_bucket now v bucket None None db =
       TelemetryService_aggregate time_bucket now v bucket (Some (now - 86400000)) (Some now) db"
proof -
  define w where "w = (case bucket of None \<Rightarrow> ''1 hour'' | Some b \<Rightarrow> b)"
  define P where "P = (\<lambda>r :: telemetry_row. tm_vehicle_id r = v \<and> f \<le> tm_time r \<and> tm_time r \<le> t)"
  define W where "W = filter P (vehicle_telemetry db)"
  define key where "key = (\<lambda>r :: telemetry_row. (time_bucket w (tm_time r), tm_vehicle_id r))"
  define groups where "groups = remdups (map key W)"
  define out where "out = map (aggregate_group time_bucket w W) groups"
  define rows where "rows = sort_key (\<lambda>row. - ag_bucket row) out"
  have res: "TelemetryService_aggregate time_bucket now v bucket (Some f) (Some t) db =
       (rows, issue (SELECT ''vehicle_telemetry'') db)"
    unfolding aggregate_explicit rows_def out_def groups_def key_def W_def P_def w_def Let_def ..
  have inW: "tm_vehicle_id r = v" if "r \<in> set W" for r
    using that by (simp add: W_def P_def)
  have grp: "snd g = v \<and> (\<exists>r \<in> set W. fst g = time_bucket w (tm_time r))" if "g \<in> set groups" for g
    using that inW by (auto simp: groups_def key_def)
  have members: "filter (\<lambda>r. (time_bucket w (tm_time r), tm_vehicle_id r) = g) W =
        bucket_readings time_bucket w v f t (fst g) (vehicle_telemetry db)"
    if "g \<in> set groups" for g
  proof -
    have "snd g = v" using grp [OF that] by simp
    then have "g = (fst g, v)" by (metis prod.collapse)
    then have "(P r \<and> (time_bucket w (tm_time r), tm_vehicle_id r) = g) =
          (tm_vehicle_id r = v \<and> f \<le> tm_time r \<and> tm_time r \<le> t \<and> time_bucket w (tm_time r) = fst g)" for r
      by (metis P_def prod.inject)
    then show ?thesis
      by (simp add: W_def bucket_readings_def)
  qed
  have buckets_out: "map ag_bucket out = map fst groups"
    by (simp add: out_def ag_bucket_group)
  have set_buckets: "set (map ag_bucket rows) =
       (\<lambda>r. time_bucket w (tm_time r)) `
         {r \<in> set (vehicle_telemetry db). tm_vehicle_id r = v \<and> f \<le> tm_time r \<and> tm_time r \<le> t}"
  proof -
    have "set (map ag_bucket rows) = set (map ag_bucket out)"
      by (simp add: rows_def)
    also have "\<dots> = fst ` key ` set W"
      by (simp add: buckets_out groups_def)
    also have "\<dots> = (\<lambda>r. time_bucket w (tm_time r)) ` set W"
      by (simp add: key_def image_image)
    also have "set W = {r \<in> set (vehicle_telemetry db). tm_vehicle_id r = v \<and> f \<le> tm_time r \<and> tm_time r \<le> t}"
      by (simp add: W_def P_def)
    finally show ?thesis .
  qed
  have "inj_on fst (set groups)"
  proof (rule inj_onI)
    fix a b assume "a \<in> set groups" "b \<in> set groups" "fst a = fst b"
    with grp [of a] grp [of b] show "a = b"
      by (simp add: prod_eq_iff)
  qed
  then have "distinct (map ag_bucket out)"
    unfolding buckets_out by (simp add: distinct_map groups_def)
  then have sorted: "sorted_wrt (\<lambda>a b. b < a) (map ag_bucket rows)"
    unfolding rows_def by (rule sort_key_strictly_descending)
  have each: "ag_vehicle_id row = v \<and>
        readings row = int (length (bucket_readings time_bucket w v f t (ag_bucket row) (vehicle_telemetry db))) \<and>
        0 < readings row \<and>
        avg_speed row = map_option ROUND2
          (AVG (map tm_speed (bucket_readings time_bucket w v f t (ag_bucket row) (vehicle_telemetry db)))) \<and>
        avg_battery row = map_option ROUND2
          (AVG (map tm_battery_level (bucket_readings time_bucket w v f t (ag_bucket row) (vehicle_telemetry db)))) \<and>
        avg_temperature row = map_option ROUND2
          (AVG (map tm_temperature (bucket_readings time_bucket w v f t (ag_bucket row) (vehicle_telemetry db))))"
    if "row \<in> set rows" for row
  proof -
    from that obtain g where g: "g \<in> set groups" and row: "row = aggregate_group time_bucket w W g"
      by (auto simp: rows_def out_def)
    from grp [OF g] obtain r where r: "r \<in> set W" "fst g = time_bucket w (tm_time r)" and sg: "snd g = v"
      by blast
    have "r \<in> set (bucket_readings time_bucket w v f t (fst g) (vehicle_telemetry db))"
      using r by (simp add: bucket_readings_def W_def P_def)
    then have "0 < length (bucket_readings time_bucket w v f t (fst g) (vehicle_telemetry db))"
      by (auto simp: length_greater_0_conv simp del: length_greater_0_conv)
    then show ?thesis
      unfolding row by (simp add: aggregate_group_def Let_def members [OF g] sg)
  qed
  have dflt: "TelemetryService_aggregate time_bucket now v bucket None None db =
       TelemetryService_aggregate time_bucket now v bucket (Some (now - 86400000)) (Some now) db"
    by (simp add: TelemetryService_aggregate_def)
  from res set_buckets sorted each dflt show ?thesis
    unfolding w_def by (intro exI [of _ rows] exI [of _ "case bucket of None \<Rightarrow> ''1 hour'' | Some b \<Rightarrow> b"]) blast
qed


lemma ROUND2_of_int: "ROUND2 (of_int n) = of_int n"
proof -
  have up: "\<lfloor>(of_int n :: rat) * 100 + 1 / 2\<rfloor> = n * 100"
    by (rule floor_unique) simp_all
  have down: "\<lfloor>- (of_int n :: rat) * 100 + 1 / 2\<rfloor> = - n * 100"
    by (rule floor_unique) simp_all
  show ?thesis
    unfolding ROUND2_def up down by simp
qed

lemma ROUND2_numeral: "ROUND2 (numeral k) = numeral k"
  using ROUND2_of_int [of "numeral k"] by simp

lemma seed_telemetry: "vehicle_telemetry seed_db = [reading_a, reading_b]"
  by (simp add: seed_db_def)

lemma aggregate_seed:
  "fst (TelemetryService_aggregate hour_bucket 9000000 ''vehicle-abc-123'' None (Some 0) (Some 7200000) seed_db) =
     [\<lparr>ag_bucket = 7200000, ag_vehicle_id = ''vehicle-abc-123'', avg_speed = Some 70,
       avg_battery = None, avg_temperature = None, readings = 1\<rparr>,
      \<lparr>ag_bucket = 3600000, ag_vehicle_id = ''vehicle-abc-123'', avg_speed = Some 60,
       avg_battery = Some 90, avg_temperature = None, readings = 1\<rparr>]"
  unfolding aggregate_explicit Let_def seed_telemetry fst_conv option.case
  by (simp add: reading_a_def reading_b_def hour_bucket_def aggregate_group_def AVG_def ROUND2_numeral)

theorem aggregate_closed_window_buckets_witness:
  "fst (TelemetryService_aggregate hour_bucket 9000000 ''vehicle-abc-123'' None (Some 0) (Some 7200000) seed_db) =
     [\<lparr>ag_bucket = 7200000, ag_vehicle_id = ''vehicle-abc-123'', avg_speed = Some 70,
       avg_battery = None, avg_temperature = None, readings = 1\<rparr>,
      \<lparr>ag_bucket = 3600000, ag_vehicle_id = ''vehicle-abc-123'', avg_speed = Some 60,
       avg_battery = Some 90, avg_temperature = None, readings = 1\<rparr>] \<and>
   sorted_wrt (\<lambda>a b. b < a) [7200000, 3600000 :: int]"
proof -
  from aggregate_closed_window_buckets
    [where time_bucket = hour_bucket and now = 9000000 and v = "''vehicle-abc-123''"
       and bucket = None and f = 0 and t = 7200000 and db = seed_db]
  obtain rows where
    1: "TelemetryService_aggregate hour_bucket 9000000 ''vehicle-abc-123'' None (Some 0) (Some 7200000) seed_db =
          (rows, issue (SELECT ''vehicle_telemetry'') seed_db)"
    and 2: "sorted_wrt (\<lambda>a b. b < a) (map ag_bucket rows)"
    by blast
  from 1 aggregate_seed have "rows =
     [\<lparr>ag_bucket = 7200000, ag_vehicle_id = ''vehicle-abc-123'', avg_speed = Some 70,
       avg_battery = None, avg_temperature = None, readings = 1\<rparr>,
      \<lparr>ag_bucket = 3600000, ag_vehicle_id = ''vehicle-abc-123'', avg_speed = Some 60,
       avg_battery = Some 90, avg_temperature = None, readings = 1\<rparr>]"
    by simp
  with 1 2 show ?thesis by simp
qed

text \<open>
  Claim C7 as stated fails at the end of the window: with bounds 0 and 7200000 the
  reading taken at 7200000 is outside the half-open window, yet its bucket is returned
  with one reading.
\<close>

theorem aggregate_counts_reading_at_window_end:
  "map (\<lambda>row. (ag_bucket row, readings row))
     (fst (TelemetryService_aggregate hour_bucket 9000000 ''vehicle-abc-123'' None (Some 0) (Some 7200000) seed_db)) =
     [(7200000, 1), (3600000, 1)] \<and>
   tm_time reading_b = 7200000 \<and>
   \<not> tm_time reading_b < 7200000 \<and>
   filter (\<lambda>r. hour_bucket ''1 hour'' (tm_time r) = 7200000) (vehicle_telemetry seed_db) = [reading_b]"
  by (simp add: aggregate_seed seed_telemetry) (simp add: reading_a_def reading_b_def hour_bucket_def)


section \<open>Partial updates of inventory items and drivers\<close>

text \<open>
  The other two update methods bind the values they collect. With \<open>id\<close> a key of the
  table and at least one field present, the returned row and a following \<open>findOne\<close> show
  the new value for each field that is present and the stored value for every other one.
\<close>

lemma update_one_row:
  assumes "distinct (map f xs)" "x \<in> set xs" "f (F x) = f x"
  shows "filter (\<lambda>y. f y = f x) (map (\<lambda>y. if f y = f x then F y else y) xs) = [F x]"
proof -
  have same: "y = x" if "y \<in> set xs" "f y = f x" for y
    using assms(1,2) that by (meson distinct_map inj_onD)
  have "filter (\<lambda>y. f y = f x) (map (\<lambda>y. if f y = f x then F y else y) xs) =
        map (\<lambda>y. if f y = f x then F y else y) (filter (\<lambda>y. f y = f x) xs)"
    unfolding filter_map
    by (rule arg_cong [where f = "map _"], rule filter_cong [OF refl]) (auto simp: assms(3) dest: same)
  also have "\<dots> = [F x]"
    by (simp add: filter_key_distinct [OF assms(1,2)])
  finally show ?thesis .
qed

lemma foldl_assign_inventory:
  "foldl assign_inventory r (updateData dto) =
     r\<lparr>inv_name := (case upd_inv_name dto of None \<Rightarrow> inv_name r | Some v \<Rightarrow> v),
       inv_description := (case upd_inv_description dto of None \<Rightarrow> inv_description r | Some v \<Rightarrow> Some v),
       inv_metadata := (case upd_inv_metadata dto of None \<Rightarrow> inv_metadata r | Some v \<Rightarrow> Some v)\<rparr>"
  by (simp add: updateData_def split: option.splits)

lemma inv_id_foldl_assign: "inv_id (foldl assign_inventory r (updateData dto)) = inv_id r"
  by (simp add: foldl_assign_inventory)

lemma inventory_update_partial:
  assumes "distinct (map inv_id (inventory db))" "r \<in> set (inventory db)" "updateData dto \<noteq> []"
  shows "\<exists>db' item.
     item = inventory_columns
       (r\<lparr>inv_name := (case upd_inv_name dto of None \<Rightarrow> inv_name r | Some v \<Rightarrow> v),
          inv_description := (case upd_inv_description dto of None \<Rightarrow> inv_description r | Some v \<Rightarrow> Some v),
          inv_metadata := (case upd_inv_metadata dto of None \<Rightarrow> inv_metadata r | Some v \<Rightarrow> Some v)\<rparr>) \<and>
     InventoryService_update (inv_id r) dto db = (Inr (Some item), db') \<and>
     fst (InventoryService_findOne (inv_id r) db') = Some item"
proof -
  let ?F = "\<lambda>y. foldl assign_inventory y (updateData dto)"
  let ?rows = "map (\<lambda>y. if inv_id y = inv_id r then ?F y else y) (inventory db)"
  have one: "filter (\<lambda>y. inv_id y = inv_id r) ?rows = [?F r]"
    using assms(1,2) inv_id_foldl_assign by (rule update_one_row)
  have "InventoryService_update (inv_id r) dto db =
          (Inr (Some (inventory_columns (?F r))), issue (UPDATE ''inventory'') (db\<lparr>inventory := ?rows\<rparr>))"
    using assms(3) by (simp add: InventoryService_update_def Let_def one)
  moreover have "fst (InventoryService_findOne (inv_id r) (issue (UPDATE ''inventory'') (db\<lparr>inventory := ?rows\<rparr>))) =
          Some (inventory_columns (?F r))"
    by (simp add: InventoryService_findOne_def issue_def one)
  ultimately show ?thesis
    unfolding foldl_assign_inventory by blast
qed

lemma foldl_assign_driver:
  "foldl assign_driver d (setParts dto) =
     d\<lparr>drv_name := (case upd_name dto of None \<Rightarrow> drv_name d | Some v \<Rightarrow> v),
       drv_status := (case upd_status dto of None \<Rightarrow> drv_status d | Some v \<Rightarrow> v),
       drv_location := (case upd_location dto of None \<Rightarrow> drv_location d
                        | Some l \<Rightarrow> Some (ST_MakePoint (loc_lon l) (loc_lat l)))\<rparr>"
  by (simp add: setParts_def split: option.splits)

lemma drv_id_foldl_assign: "drv_id (foldl assign_driver d (setParts dto)) = drv_id d"
  by (simp add: foldl_assign_driver)

lemma driver_update_partial:
  assumes "distinct (map drv_id (drivers db))" "d \<in> set (drivers db)" "setParts dto \<noteq> []"
  shows "\<exists>db' row.
     row = driver_columns
       (d\<lparr>drv_name := (case upd_name dto of None \<Rightarrow> drv_name d | Some v \<Rightarrow> v),
          drv_status := (case upd_status dto of None \<Rightarrow> drv_status d | Some v \<Rightarrow> v),
          drv_location := (case upd_location dto of None \<Rightarrow> drv_location d
                           | Some l \<Rightarrow> Some (ST_MakePoint (loc_lon l) (loc_lat l)))\<rparr>) \<and>
     DriversService_update (drv_id d) dto db = (Inr (Some row), db') \<and>
     fst (DriversService_findOne (drv_id d) db') = Inr row"
proof -
  let ?F = "\<lambda>y. foldl assign_driver y (setParts dto)"
  let ?rows = "map (\<lambda>y. if drv_id y = drv_id d then ?F y else y) (drivers db)"
  have found: "filter (\<lambda>y. drv_id y = drv_id d) (drivers db) = [d]"
    using assms(1,2) by (rule filter_key_distinct)
  have one: "filter (\<lambda>y. drv_id y = drv_id d) ?rows = [?F d]"
    using assms(1,2) drv_id_foldl_assign by (rule update_one_row)
  have guard: "DriversService_findOne (drv_id d) db = (Inr (driver_columns d), issue (SELECT ''drivers'') db)"
    by (simp add: DriversService_findOne_def found)
  have upd: "update_driver (setParts dto) (drv_id d) (issue (SELECT ''drivers'') db) =
          ([driver_columns (?F d)],
           issue (UPDATE ''drivers'') ((issue (SELECT ''drivers'') db)\<lparr>drivers := ?rows\<rparr>))"
    by (simp add: update_driver_def Let_def issue_def one)
  have "DriversService_update (drv_id d) dto db =
          (Inr (Some (driver_columns (?F d))),
           issue (UPDATE ''drivers'') ((issue (SELECT ''drivers'') db)\<lparr>drivers := ?rows\<rparr>))"
    using assms(3) by (simp add: DriversService_update_def guard upd)
  moreover have "fst (DriversService_findOne (drv_id d)
          (issue (UPDATE ''drivers'') ((issue (SELECT ''drivers'') db)\<lparr>drivers := ?rows\<rparr>))) =
          Inr (driver_columns (?F d))"
    by (simp add: DriversService_findOne_def issue_def one)
  ultimately show ?thesis
    unfolding foldl_assign_driver by blast
qed


end
